theory Spec2Isabelle
  imports Main "HOL-Library.Word"
begin

unbundle bit_operations_syntax

section \<open>Bytes, text and errors\<close>

text \<open>
  The client is Python 2 code: text and binary data are both byte strings
  (\<^verbatim>\<open>result.signature[0] == b'\x00'\<close> compares two one-byte strings, and the digest
  function is fed the output of \<^verbatim>\<open>strftime\<close>). Text that the identity codec handles is a
  \<^typ>\<open>string\<close>; binary data is a list of 8-bit words. Python integers are \<^typ>\<open>int\<close>.
\<close>

type_synonym byte = "8 word"
type_synonym bytes = "byte list"

text \<open>Every exception the client can raise is a value; \<open>ExternalError\<close> stands for whatever
  a collaborator outside the client raises.\<close>

datatype error =
    AssertionError
  | KeyError string
  | AttributeError
  | EOFError
  | UnicodeError
  | BadSignatureError
  | ExternalError string

definition newline :: char where
  "newline = CHR 0x0A"

section \<open>Identity codec\<close>

subsection \<open>The regular expression engine\<close>

text \<open>
  \<^verbatim>\<open>_identity_regexp\<close> is matched by Python's backtracking engine. The fragment the pattern
  uses is embedded as a datatype, and matching as the list of all ways to match, in the order
  in which the engine tries them: a greedy repetition tries the longest run first, a lazy one
  the shortest, an optional part is tried before it is skipped. The engine's answer is the first
  element of that list.
\<close>

datatype cls = AnyChar | WordChar

datatype regex =
    Bol
  | Eol
  | Lit string
  | StarG cls
  | StarL cls
  | Grp string regex
  | Opt regex
  | Cat regex regex

type_synonym groups = "string \<rightharpoonup> string"

definition is_word_char :: "char \<Rightarrow> bool" where
  "is_word_char c =
     (let n = (of_char c :: nat)
      in (48 \<le> n \<and> n \<le> 57) \<or> (65 \<le> n \<and> n \<le> 90) \<or> n = 95 \<or> (97 \<le> n \<and> n \<le> 122))"

fun in_cls :: "cls \<Rightarrow> char \<Rightarrow> bool" where
  "in_cls AnyChar c = (c \<noteq> newline)"
| "in_cls WordChar c = is_word_char c"

definition sub :: "string \<Rightarrow> nat \<Rightarrow> nat \<Rightarrow> string" where
  "sub s p q = take (q - p) (drop p s)"

definition at_eol :: "string \<Rightarrow> nat \<Rightarrow> bool" where
  "at_eol s p = (p = length s \<or> (Suc p = length s \<and> drop p s = [newline]))"

definition span :: "cls \<Rightarrow> string \<Rightarrow> nat \<Rightarrow> nat" where
  "span k s p = length (takeWhile (in_cls k) (drop p s))"

fun run :: "regex \<Rightarrow> string \<Rightarrow> groups \<times> nat \<Rightarrow> (groups \<times> nat) list" where
  "run Bol s (g, p) = (if p = 0 then [(g, p)] else [])"
| "run Eol s (g, p) = (if at_eol s p then [(g, p)] else [])"
| "run (Lit l) s (g, p) =
     (if take (length l) (drop p s) = l then [(g, p + length l)] else [])"
| "run (StarG k) s (g, p) = map (\<lambda>n. (g, p + n)) (rev [0 ..< Suc (span k s p)])"
| "run (StarL k) s (g, p) = map (\<lambda>n. (g, p + n)) [0 ..< Suc (span k s p)]"
| "run (Grp name r) s (g, p) =
     map (\<lambda>(g', q). (g'(name \<mapsto> sub s p q), q)) (run r s (g, p))"
| "run (Opt r) s (g, p) = run r s (g, p) @ [(g, p)]"
| "run (Cat a b) s (g, p) = concat (map (run b s) (run a s (g, p)))"

definition re_match :: "regex \<Rightarrow> string \<Rightarrow> groups option" where
  "re_match r s = (case run r s (Map.empty, 0) of [] \<Rightarrow> None | (g, _) # _ \<Rightarrow> Some g)"

definition identity_regexp :: regex where
  "identity_regexp =
     Cat Bol
    (Cat (Opt (Cat (Grp ''proto'' (StarG AnyChar)) (Lit ''://'')))
    (Cat (Opt (Cat (Grp ''user'' (StarG AnyChar)) (Lit ''@'')))
    (Cat (Grp ''host'' (StarL AnyChar))
    (Cat (Opt (Cat (Lit '':'') (Grp ''port'' (StarG WordChar))))
    (Cat (Opt (Grp ''path'' (Cat (Lit ''/'') (StarG AnyChar))))
         Eol)))))"

subsection \<open>Identities\<close>

text \<open>
  The identity type comes from the device library: a message whose text fields read as the
  empty string when they were never set, and whose \<open>index\<close> is an unsigned 32-bit integer,
  0 by default. The client itself only ever tests the fields for truth, so an empty field and
  an absent one are the same thing to it.
\<close>

record identity =
  proto :: string
  user :: string
  host :: string
  port :: string
  path :: string
  index :: "32 word"

definition kwarg :: "groups \<Rightarrow> string \<Rightarrow> string" where
  "kwarg g k = (case g k of None \<Rightarrow> [] | Some v \<Rightarrow> v)"

definition identity_type :: "groups \<Rightarrow> identity" where
  "identity_type g =
     \<lparr>proto = kwarg g ''proto'', user = kwarg g ''user'', host = kwarg g ''host'',
      port = kwarg g ''port'', path = kwarg g ''path'', index = 0\<rparr>"

definition string_to_identity :: "string \<Rightarrow> error + identity" where
  "string_to_identity s =
     (case re_match identity_regexp s of
        None \<Rightarrow> Inl AttributeError
      | Some result \<Rightarrow> Inr (identity_type result))"

definition identity_to_string :: "identity \<Rightarrow> string" where
  "identity_to_string i =
     (if proto i \<noteq> [] then proto i @ ''://'' else []) @
     (if user i \<noteq> [] then user i @ ''@'' else []) @
     host i @
     (if port i \<noteq> [] then '':'' @ port i else []) @
     (if path i \<noteq> [] then path i else [])"

definition get_identity :: "string \<Rightarrow> string option \<Rightarrow> error + identity" where
  "get_identity label protocol =
     (case string_to_identity label of
        Inl e \<Rightarrow> Inl e
      | Inr i \<Rightarrow> (case protocol of None \<Rightarrow> Inr i | Some p \<Rightarrow> Inr (i\<lparr>proto := p\<rparr>)))"

section \<open>Binary helpers\<close>

text \<open>
  Python 2 text is already bytes; \<^verbatim>\<open>.encode('ascii')\<close> accepts it only when every
  character is below 128.
\<close>

definition str_bytes :: "string \<Rightarrow> bytes" where
  "str_bytes s = map of_char s"

definition encode_ascii :: "string \<Rightarrow> error + bytes" where
  "encode_ascii s =
     (if list_all (\<lambda>c. (of_char c :: nat) < 128) s then Inr (str_bytes s) else Inl UnicodeError)"

text \<open>\<^verbatim>\<open>struct.pack('<L', v)\<close> for an unsigned 32-bit \<open>v\<close>: four bytes, lowest first.\<close>

definition struct_pack_L :: "32 word \<Rightarrow> bytes" where
  "struct_pack_L v = map (\<lambda>k. ucast (drop_bit (8 * k) v)) [0, 1, 2, 3]"

text \<open>\<^verbatim>\<open>struct.unpack('<LLLL', b)\<close> on sixteen bytes: four unsigned integers, each read
  lowest byte first.\<close>

definition le2num :: "bytes \<Rightarrow> int" where
  "le2num bs = foldr (\<lambda>b acc. uint b + 256 * acc) bs 0"

definition struct_unpack_LLLL :: "bytes \<Rightarrow> int list" where
  "struct_unpack_LLLL b = map (\<lambda>k. le2num (take 4 (drop (4 * k) b))) [0, 1, 2, 3]"

text \<open>
  Modelled from the spec: \<^verbatim>\<open>util.bytes2num\<close> is not part of the sources at hand. The
  specification reads the bytes as one big-endian unsigned integer.
\<close>

definition bytes2num :: "bytes \<Rightarrow> int" where
  "bytes2num s = foldl (\<lambda>res c. 256 * res + uint c) 0 s"

text \<open>
  Modelled from the spec: \<^verbatim>\<open>util.recv\<close> is not part of the sources at hand. Called with the
  format \<^verbatim>\<open>'<LLLL'\<close> it takes the first sixteen bytes of the stream and unpacks them; a
  stream that ends before that is an error.
\<close>

definition recv_LLLL :: "bytes \<Rightarrow> error + int list" where
  "recv_LLLL s = (if length s < 16 then Inl EOFError else Inr (struct_unpack_LLLL (take 16 s)))"

text \<open>
  Modelled from the spec: \<^verbatim>\<open>util.read_frame\<close> is not part of the sources at hand. A frame is
  a 4-byte big-endian length followed by that many bytes; a read that runs past the end of the
  buffer fails. The stream is the list of bytes not yet read, and the result carries what is
  left of it.
\<close>

definition read_frame :: "bytes \<Rightarrow> error + bytes \<times> bytes" where
  "read_frame i =
     (if length i < 4 then Inl EOFError
      else let size = nat (bytes2num (take 4 i)); rest = drop 4 i
           in if length rest < size then Inl EOFError
              else Inr (take size rest, drop size rest))"

section \<open>Key-path derivation\<close>

definition hardened :: int where
  "hardened = 0x80000000"

definition get_address :: "(bytes \<Rightarrow> bytes) \<Rightarrow> identity \<Rightarrow> error + int list" where
  "get_address hashfunc identity =
     (let idx = struct_pack_L (index identity)
      in case encode_ascii (identity_to_string identity) of
           Inl e \<Rightarrow> Inl e
         | Inr label \<Rightarrow>
             let addr = idx @ label;
                 digest = hashfunc addr
             in case recv_LLLL digest of
                  Inl e \<Rightarrow> Inl e
                | Inr vals \<Rightarrow>
                    let address_n = 13 # vals
                    in Inr (map (\<lambda>v. hardened OR v) address_n))"

section \<open>SSH challenge blobs\<close>

text \<open>The parsed public key is produced by \<^verbatim>\<open>formats.parse_pubkey\<close>, a collaborator; the
  client reads its \<open>blob\<close> and its \<open>fingerprint\<close> only.\<close>

record pubkey =
  pk_blob :: bytes
  pk_fingerprint :: string

text \<open>The dictionary \<^verbatim>\<open>res\<close> has six possible keys; a key that was never stored is
  \<open>None\<close>.\<close>

record ssh_blob =
  msg_nonce :: "bytes option"
  msg_user :: "bytes option"
  msg_conn :: "bytes option"
  msg_auth :: "bytes option"
  msg_key_type :: "bytes option"
  msg_public_key :: "pubkey option"

definition empty_blob :: ssh_blob where
  "empty_blob =
     \<lparr>msg_nonce = None, msg_user = None, msg_conn = None, msg_auth = None,
      msg_key_type = None, msg_public_key = None\<rparr>"

definition parse_ssh_blob :: "(bytes \<Rightarrow> error + pubkey) \<Rightarrow> bytes \<Rightarrow> error + ssh_blob" where
  "parse_ssh_blob parse_pubkey data =
     (if data = [] then Inr empty_blob
      else
        case read_frame data of Inl e \<Rightarrow> Inl e | Inr (nonce, i1) \<Rightarrow>
        let i2 = drop 1 i1 in
        case read_frame i2 of Inl e \<Rightarrow> Inl e | Inr (usr, i3) \<Rightarrow>
        case read_frame i3 of Inl e \<Rightarrow> Inl e | Inr (conn, i4) \<Rightarrow>
        case read_frame i4 of Inl e \<Rightarrow> Inl e | Inr (auth, i5) \<Rightarrow>
        let i6 = drop 1 i5 in
        case read_frame i6 of Inl e \<Rightarrow> Inl e | Inr (key_type, i7) \<Rightarrow>
        case read_frame i7 of Inl e \<Rightarrow> Inl e | Inr (public_key, i8) \<Rightarrow>
        case parse_pubkey public_key of Inl e \<Rightarrow> Inl e | Inr pk \<Rightarrow>
        if i8 \<noteq> [] then Inl AssertionError
        else Inr \<lparr>msg_nonce = Some nonce, msg_user = Some usr, msg_conn = Some conn,
                  msg_auth = Some auth, msg_key_type = Some key_type,
                  msg_public_key = Some pk\<rparr>)"

section \<open>Signatures\<close>

definition parse_signature :: "bytes \<Rightarrow> int \<times> int" where
  "parse_signature blob =
     (let sig = drop 1 blob;
          r = bytes2num (take 32 sig);
          s = bytes2num (drop 32 sig)
      in (r, s))"

section \<open>Session orchestrator\<close>

text \<open>
  Everything the client calls but does not implement is a field of the environment: the hash
  function and key handling of \<^verbatim>\<open>formats\<close>, the Bitcoin helpers, signature verification
  and the three requests of the device. Each collaborator that can raise returns a sum. The
  type \<open>'vk\<close> is the verifying key, opaque to the client.
\<close>

datatype curve = CurveDefault | SECP256k1

record sign_result =
  res_public_key :: bytes
  res_signature :: bytes
  res_address :: string

record 'vk env =
  hashfunc :: "bytes \<Rightarrow> bytes"
  parse_pubkey :: "bytes \<Rightarrow> error + pubkey"
  decompress_pubkey :: "bytes \<Rightarrow> curve \<Rightarrow> error + 'vk"
  serialize_verifying_key :: "'vk \<Rightarrow> error + bytes"
  verify_digest :: "'vk \<Rightarrow> int \<times> int \<Rightarrow> bytes \<Rightarrow> error + bool"
  pubkey_to_address :: "bytes \<Rightarrow> error + string"
  electrum_sig_hash :: "bytes \<Rightarrow> bytes"
  client_get_public_node :: "int list \<Rightarrow> string option \<Rightarrow> error + bytes"
  client_sign_identity :: "identity \<Rightarrow> bytes \<Rightarrow> string \<Rightarrow> string option \<Rightarrow> error + sign_result"
  client_get_address :: "int list \<Rightarrow> string \<Rightarrow> bool \<Rightarrow> error + unit"

text \<open>The requests sent to the device are logged in the order they are issued; the log is the
  state every operation takes and returns.\<close>

datatype request =
    GetPublicNode "int list" "string option"
  | SignIdentity identity bytes string "string option"
  | GetAddress "int list" string bool

fun is_sign_request :: "request \<Rightarrow> bool" where
  "is_sign_request (SignIdentity _ _ _ _) = True"
| "is_sign_request _ = False"

definition curve_name :: string where
  "curve_name = ''nist256p1''"

definition sign_ssh_challenge ::
  "'vk env \<Rightarrow> identity \<Rightarrow> bytes \<Rightarrow> request list \<Rightarrow> (error + int \<times> int) \<times> request list" where
  "sign_ssh_challenge e identity blob reqs =
     (if proto identity \<noteq> ''ssh'' then (Inl AssertionError, reqs)
      else
        case parse_ssh_blob (parse_pubkey e) blob of Inl x \<Rightarrow> (Inl x, reqs) | Inr msg \<Rightarrow>
        case msg_user msg of None \<Rightarrow> (Inl (KeyError ''user''), reqs) | Some _ \<Rightarrow>
        let visual = path identity;
            reqs' = reqs @ [SignIdentity identity blob visual (Some curve_name)]
        in
        case client_sign_identity e identity blob visual (Some curve_name) of
          Inl x \<Rightarrow> (Inl x, reqs') | Inr result \<Rightarrow>
        case decompress_pubkey e (res_public_key result) CurveDefault of
          Inl x \<Rightarrow> (Inl x, reqs') | Inr verifying_key \<Rightarrow>
        case serialize_verifying_key e verifying_key of
          Inl x \<Rightarrow> (Inl x, reqs') | Inr public_key_blob \<Rightarrow>
        case msg_public_key msg of
          None \<Rightarrow> (Inl (KeyError ''public_key''), reqs') | Some pk \<Rightarrow>
        if public_key_blob \<noteq> pk_blob pk then (Inl AssertionError, reqs')
        else if length (res_signature result) \<noteq> 65 then (Inl AssertionError, reqs')
        else if res_signature result ! 0 \<noteq> 0 then (Inl AssertionError, reqs')
        else (Inr (parse_signature (res_signature result)), reqs'))"

definition message_digest :: "'vk env \<Rightarrow> bytes \<Rightarrow> string \<Rightarrow> bytes" where
  "message_digest e hidden visual =
     (let hidden_digest = hashfunc e hidden;
          visual_digest = hashfunc e (str_bytes visual)
      in electrum_sig_hash e (hidden_digest @ visual_digest))"

definition validate_signature :: "'vk env \<Rightarrow> sign_result \<Rightarrow> bytes \<Rightarrow> curve \<Rightarrow> error + int" where
  "validate_signature e result digest crv =
     (case decompress_pubkey e (res_public_key result) crv of
        Inl x \<Rightarrow> Inl x
      | Inr verifying_key \<Rightarrow>
          let signature = parse_signature (res_signature result)
          in case verify_digest e verifying_key signature digest of
               Inl x \<Rightarrow> (if x = BadSignatureError then Inr 1 else Inl x)
             | Inr _ \<Rightarrow> Inr 0)"

definition sign_identity ::
  "'vk env \<Rightarrow> string \<Rightarrow> string option \<Rightarrow> (string \<Rightarrow> string) \<Rightarrow> (nat \<Rightarrow> bytes) \<Rightarrow>
   request list \<Rightarrow> (error + int) \<times> request list" where
  "sign_identity e label expected_address strftime urandom reqs =
     (let visual = strftime ''%d/%m/%y %H:%M:%S'';
          hidden = urandom 64
      in
      case get_identity label None of Inl x \<Rightarrow> (Inl x, reqs) | Inr identity \<Rightarrow>
      case get_address (hashfunc e) identity of Inl x \<Rightarrow> (Inl x, reqs) | Inr derivation_path \<Rightarrow>
      let reqs1 = reqs @ [GetPublicNode derivation_path None] in
      case client_get_public_node e derivation_path None of
        Inl x \<Rightarrow> (Inl x, reqs1) | Inr node \<Rightarrow>
      case pubkey_to_address e node of Inl x \<Rightarrow> (Inl x, reqs1) | Inr address \<Rightarrow>
      case expected_address of
        None \<Rightarrow>
          let reqs2 = reqs1 @ [GetAddress derivation_path ''Bitcoin'' True]
          in (case client_get_address e derivation_path ''Bitcoin'' True of
                Inl x \<Rightarrow> (Inl x, reqs2)
              | Inr _ \<Rightarrow> (Inr 2, reqs2))
      | Some expected \<Rightarrow>
          if expected \<noteq> address then (Inl AssertionError, reqs1)
          else
            let reqs2 = reqs1 @ [SignIdentity identity hidden visual None] in
            case client_sign_identity e identity hidden visual None of
              Inl x \<Rightarrow> (Inl x, reqs2) | Inr result \<Rightarrow>
            if address \<noteq> res_address result then (Inl AssertionError, reqs2)
            else if node \<noteq> res_public_key result then (Inl AssertionError, reqs2)
            else
              let digest = message_digest e hidden visual
              in (validate_signature e result digest SECP256k1, reqs2))"

section \<open>The wire format of a challenge\<close>

text \<open>
  The sender's side of the frame format, for stating what the parser accepts: a frame is the
  length of the payload as four bytes, highest first, followed by the payload; a challenge is
  six frames with one reserved byte after the first and one after the fourth.
\<close>

definition frame :: "bytes \<Rightarrow> bytes" where
  "frame x = map (\<lambda>k. of_nat (length x div 256 ^ k)) [3, 2, 1, 0] @ x"

definition challenge_bytes ::
  "bytes \<Rightarrow> byte \<Rightarrow> bytes \<Rightarrow> bytes \<Rightarrow> bytes \<Rightarrow> byte \<Rightarrow> bytes \<Rightarrow> bytes \<Rightarrow> bytes" where
  "challenge_bytes nonce b1 usr conn auth b2 key_type public_key =
     frame nonce @ [b1] @ frame usr @ frame conn @ frame auth @ [b2] @
     frame key_type @ frame public_key"

section \<open>A test double\<close>

text \<open>
  Collaborators that always answer, used to run the operations on concrete inputs: the device
  returns a fixed signing result, verification returns a fixed verdict, keys are their own
  serialisation.
\<close>

definition example_env :: "sign_result \<Rightarrow> error + bool \<Rightarrow> bytes env" where
  "example_env result verdict =
     \<lparr>hashfunc = (\<lambda>b. replicate 32 1),
      parse_pubkey = (\<lambda>b. Inr \<lparr>pk_blob = b, pk_fingerprint = []\<rparr>),
      decompress_pubkey = (\<lambda>b c. Inr b),
      serialize_verifying_key = (\<lambda>vk. Inr vk),
      verify_digest = (\<lambda>vk sg d. verdict),
      pubkey_to_address = (\<lambda>b. Inr ''addr''),
      electrum_sig_hash = (\<lambda>b. b),
      client_get_public_node = (\<lambda>n c. Inr [2]),
      client_sign_identity = (\<lambda>i h v c. Inr result),
      client_get_address = (\<lambda>n c d. Inr ())\<rparr>"

definition example_result :: "bytes \<Rightarrow> bytes \<Rightarrow> sign_result" where
  "example_result k sg = \<lparr>res_public_key = k, res_signature = sg, res_address = ''addr''\<rparr>"

text \<open>A challenge with empty frames but for the user \<open>u\<close> and the one-byte key \<open>2\<close>.\<close>

definition example_blob :: bytes where
  "example_blob =
     [0, 0, 0, 0] @ [0] @ [0, 0, 0, 1, 117] @ [0, 0, 0, 0] @ [0, 0, 0, 0] @ [0] @
     [0, 0, 0, 0] @ [0, 0, 0, 1, 2]"

definition example_identity :: identity where
  "example_identity =
     \<lparr>proto = ''ssh'', user = [], host = ''h'', port = [], path = [], index = 0\<rparr>"

section \<open>The identity codec: results\<close>

text \<open>
  C9. There is an input on which the identity parser fails instead of returning an identity:
  on the three characters \<open>a\<close>, newline, \<open>b\<close> the pattern does not match at all (so no
  group, \<open>host\<close> included, is captured), and taking the groups of the missing match raises.
\<close>

theorem string_to_identity_fails:
  "re_match identity_regexp (''a'' @ [newline] @ ''b'') = None \<and>
   string_to_identity (''a'' @ [newline] @ ''b'') = Inl AttributeError"
  by code_simp

section \<open>Signature extraction\<close>

lemma bytes2num_snoc: "bytes2num (bs @ [b]) = 256 * bytes2num bs + uint b"
  by (simp add: bytes2num_def)

lemma bytes2num_Nil: "bytes2num [] = 0"
  by (simp add: bytes2num_def)

lemma bytes2num_bounds: "0 \<le> bytes2num bs \<and> bytes2num bs < 256 ^ length bs"
proof (induction bs rule: rev_induct)
  case Nil
  show ?case by (simp add: bytes2num_Nil)
next
  case (snoc b bs)
  have b: "0 \<le> uint b" "uint b < 256"
    using uint_bounded [of b] by simp_all
  from snoc b show ?case
    by (simp add: bytes2num_snoc)
qed

lemma bytes2num_sum:
  "bytes2num bs = (\<Sum>k < length bs. uint (bs ! k) * 256 ^ (length bs - 1 - k))"
proof (induction bs rule: rev_induct)
  case Nil
  show ?case by (simp add: bytes2num_Nil)
next
  case (snoc b bs)
  have "(\<Sum>k < length bs. uint ((bs @ [b]) ! k) * 256 ^ (length bs - k))
        = (\<Sum>k < length bs. 256 * (uint (bs ! k) * 256 ^ (length bs - 1 - k)))"
  proof (rule sum.cong [OF refl])
    fix k assume "k \<in> {..<length bs}"
    then have k: "k < length bs" by simp
    then have "length bs - k = Suc (length bs - 1 - k)" by arith
    with k show "uint ((bs @ [b]) ! k) * 256 ^ (length bs - k)
        = 256 * (uint (bs ! k) * 256 ^ (length bs - 1 - k))"
      by (simp add: nth_append)
  qed
  then show ?case
    using snoc by (simp add: bytes2num_snoc sum_distrib_left)
qed

lemma parse_signature_zero: "parse_signature (replicate 65 0) = (0, 0)"
  by code_simp

text \<open>
  C8. On a blob of 65 bytes \<open>parse_signature\<close> ignores byte 0 and returns \<open>(r, s)\<close>, where
  \<open>r\<close> is bytes 1 to 32 and \<open>s\<close> bytes 33 to 64, each read as a big-endian unsigned integer
  (byte \<open>k\<close> of the 32 has weight \<open>256 ^ (31 - k)\<close>); both lie in \<open>[0, 2 ^ 256)\<close>.
\<close>

theorem parse_signature_65:
  assumes "length blob = 65"
  shows "parse_signature blob =
           ((\<Sum>k < 32. uint (blob ! (1 + k)) * 256 ^ (31 - k)),
            (\<Sum>k < 32. uint (blob ! (33 + k)) * 256 ^ (31 - k))) \<and>
         0 \<le> fst (parse_signature blob) \<and> fst (parse_signature blob) < 2 ^ 256 \<and>
         0 \<le> snd (parse_signature blob) \<and> snd (parse_signature blob) < 2 ^ 256"
proof -
  let ?r = "take 32 (drop 1 blob)" and ?s = "drop 32 (drop 1 blob)"
  have lr: "length ?r = 32" and ls: "length ?s = 32"
    using assms by simp_all
  have ps: "parse_signature blob = (bytes2num ?r, bytes2num ?s)"
    by (simp add: parse_signature_def Let_def)
  have r: "bytes2num ?r = (\<Sum>k < 32. uint (blob ! (1 + k)) * 256 ^ (31 - k))"
    unfolding bytes2num_sum [of ?r] lr
    by (rule sum.cong [OF refl]) (use assms in simp)
  have s: "bytes2num ?s = (\<Sum>k < 32. uint (blob ! (33 + k)) * 256 ^ (31 - k))"
    unfolding bytes2num_sum [of ?s] ls
    by (rule sum.cong [OF refl]) (use assms in \<open>simp add: add.commute\<close>)
  have p: "(256::int) ^ 32 = 2 ^ 256" by simp
  have br: "0 \<le> bytes2num ?r \<and> bytes2num ?r < 2 ^ 256"
    using bytes2num_bounds [of ?r] unfolding lr p .
  have bs: "0 \<le> bytes2num ?s \<and> bytes2num ?s < 2 ^ 256"
    using bytes2num_bounds [of ?s] unfolding ls p .
  show ?thesis
    unfolding ps fst_conv snd_conv using r s br bs by simp
qed

theorem parse_signature_65_witness:
  "length (9 # replicate 31 0 @ [1] @ replicate 31 0 @ [2 :: byte]) = 65 \<and>
   parse_signature (9 # replicate 31 0 @ [1] @ replicate 31 0 @ [2]) = (1, 2) \<and>
   (1 :: int) < 2 ^ 256 \<and> (2 :: int) < 2 ^ 256"
proof -
  have l: "length (9 # replicate 31 0 @ [1] @ replicate 31 0 @ [2 :: byte]) = 65"
    by simp
  have v: "parse_signature (9 # replicate 31 0 @ [1] @ replicate 31 0 @ [2]) = (1, 2)"
    by code_simp
  from parse_signature_65 [OF l] show ?thesis
    unfolding v by simp
qed

section \<open>SSH challenge blobs: results\<close>

text \<open>
  C6. The empty byte string is not an error for \<open>parse_ssh_blob\<close>: the result is the record
  with no field present, whatever the public-key parser is.
\<close>

theorem parse_ssh_blob_empty:
  "parse_ssh_blob pp [] =
     Inr \<lparr>msg_nonce = None, msg_user = None, msg_conn = None, msg_auth = None,
          msg_key_type = None, msg_public_key = None\<rparr>"
  by (simp add: parse_ssh_blob_def empty_blob_def)

lemma parse_ssh_blob_fields:
  assumes "parse_ssh_blob pp data = Inr msg"
  shows "(msg_user msg = None) = (data = []) \<and> (msg_public_key msg = None) = (data = [])"
  using assms
  by (auto simp: parse_ssh_blob_def empty_blob_def Let_def split: if_splits sum.splits prod.splits)

lemma example_blob_parsed:
  "parse_ssh_blob (parse_pubkey (example_env r v)) example_blob =
     Inr \<lparr>msg_nonce = Some [], msg_user = Some [117], msg_conn = Some [], msg_auth = Some [],
          msg_key_type = Some [], msg_public_key = Some \<lparr>pk_blob = [2], pk_fingerprint = []\<rparr>\<rparr>"
  by (simp add: example_env_def example_blob_def parse_ssh_blob_def read_frame_def bytes2num_def)

section \<open>Signing an SSH challenge\<close>

text \<open>Once the blob is parsed and the device, the decompression and the serialisation have
  answered, three assertions in a row decide the outcome.\<close>

lemma sign_ssh_challenge_checks:
  assumes "proto i = ''ssh''"
    and "parse_ssh_blob (parse_pubkey e) blob = Inr msg"
    and "msg_public_key msg = Some pk"
    and "client_sign_identity e i blob (path i) (Some curve_name) = Inr result"
    and "decompress_pubkey e (res_public_key result) CurveDefault = Inr vk"
    and "serialize_verifying_key e vk = Inr pkb"
  shows "sign_ssh_challenge e i blob reqs =
           (if pkb \<noteq> pk_blob pk then Inl AssertionError
            else if length (res_signature result) \<noteq> 65 then Inl AssertionError
            else if res_signature result ! 0 \<noteq> 0 then Inl AssertionError
            else Inr (parse_signature (res_signature result)),
            reqs @ [SignIdentity i blob (path i) (Some curve_name)])"
proof -
  from parse_ssh_blob_fields [OF assms(2)] assms(3)
  obtain u where "msg_user msg = Some u"
    by (cases "msg_user msg") auto
  with assms show ?thesis
    by (simp add: sign_ssh_challenge_def Let_def)
qed

text \<open>
  C3. When the key the device returned serialises to something else than the public-key blob
  claimed inside the challenge, \<open>sign_ssh_challenge\<close> stops at its assertion: the outcome is
  \<open>AssertionError\<close> and no \<open>(r, s)\<close> pair is returned. (The signing request has been issued by
  then; it is the last entry of the log.)
\<close>

theorem sign_ssh_challenge_key_mismatch:
  assumes "proto i = ''ssh''"
    and "parse_ssh_blob (parse_pubkey e) blob = Inr msg"
    and "msg_public_key msg = Some pk"
    and "client_sign_identity e i blob (path i) (Some curve_name) = Inr result"
    and "decompress_pubkey e (res_public_key result) CurveDefault = Inr vk"
    and "serialize_verifying_key e vk = Inr pkb"
    and "pkb \<noteq> pk_blob pk"
  shows "sign_ssh_challenge e i blob reqs =
           (Inl AssertionError, reqs @ [SignIdentity i blob (path i) (Some curve_name)]) \<and>
         (\<forall>rs. fst (sign_ssh_challenge e i blob reqs) \<noteq> Inr rs)"
  using sign_ssh_challenge_checks [OF assms(1-6)] assms(7) by simp

theorem sign_ssh_challenge_key_mismatch_witness:
  "sign_ssh_challenge (example_env (example_result [1] (replicate 65 0)) (Inr True))
      example_identity example_blob [] =
     (Inl AssertionError, [SignIdentity example_identity example_blob [] (Some curve_name)])"
proof -
  let ?e = "example_env (example_result [1] (replicate 65 0)) (Inr True)"
  have 1: "proto example_identity = ''ssh''"
    by (simp add: example_identity_def)
  have 3: "msg_public_key \<lparr>msg_nonce = Some [], msg_user = Some [117], msg_conn = Some [],
      msg_auth = Some [], msg_key_type = Some [],
      msg_public_key = Some \<lparr>pk_blob = [2], pk_fingerprint = []\<rparr>\<rparr>
      = Some \<lparr>pk_blob = [2], pk_fingerprint = []\<rparr>"
    by simp
  have 4: "client_sign_identity ?e example_identity example_blob (path example_identity)
      (Some curve_name) = Inr (example_result [1] (replicate 65 0))"
    by (simp add: example_env_def)
  have 5: "decompress_pubkey ?e (res_public_key (example_result [1] (replicate 65 0)))
      CurveDefault = Inr [1]"
    by (simp add: example_env_def example_result_def)
  have 6: "serialize_verifying_key ?e [1] = Inr [1]"
    by (simp add: example_env_def)
  have 7: "[1] \<noteq> pk_blob \<lparr>pk_blob = [2::byte], pk_fingerprint = []\<rparr>"
    by simp
  from sign_ssh_challenge_key_mismatch [OF 1 example_blob_parsed 3 4 5 6 7, of "[]"]
  show ?thesis by (simp add: example_identity_def)
qed

text \<open>
  C4. With the key check passed, \<open>sign_ssh_challenge\<close> returns \<open>(r, s)\<close> exactly when the
  signature blob has 65 bytes and byte 0 is zero; any other length and any other first byte end
  in \<open>AssertionError\<close>. A blob of 65 zero bytes passes and gives \<open>r = 0\<close>, \<open>s = 0\<close>.
\<close>

theorem sign_ssh_challenge_signature_shape:
  assumes "proto i = ''ssh''"
    and "parse_ssh_blob (parse_pubkey e) blob = Inr msg"
    and "msg_public_key msg = Some pk"
    and "client_sign_identity e i blob (path i) (Some curve_name) = Inr result"
    and "decompress_pubkey e (res_public_key result) CurveDefault = Inr vk"
    and "serialize_verifying_key e vk = Inr (pk_blob pk)"
  shows "sign_ssh_challenge e i blob reqs =
           (if length (res_signature result) = 65 \<and> res_signature result ! 0 = 0
            then Inr (parse_signature (res_signature result)) else Inl AssertionError,
            reqs @ [SignIdentity i blob (path i) (Some curve_name)]) \<and>
         (res_signature result = replicate 65 0 \<longrightarrow>
            fst (sign_ssh_challenge e i blob reqs) = Inr (0, 0))"
  using sign_ssh_challenge_checks [OF assms] parse_signature_zero by auto

theorem sign_ssh_challenge_signature_shape_witness:
  "sign_ssh_challenge (example_env (example_result [2] (replicate 65 0)) (Inr True))
      example_identity example_blob [] =
     (Inr (0, 0), [SignIdentity example_identity example_blob [] (Some curve_name)]) \<and>
   sign_ssh_challenge (example_env (example_result [2] (replicate 64 0)) (Inr True))
      example_identity example_blob [] =
     (Inl AssertionError, [SignIdentity example_identity example_blob [] (Some curve_name)]) \<and>
   sign_ssh_challenge (example_env (example_result [2] (1 # replicate 64 0)) (Inr True))
      example_identity example_blob [] =
     (Inl AssertionError, [SignIdentity example_identity example_blob [] (Some curve_name)])"
proof -
  have 1: "proto example_identity = ''ssh''"
    by (simp add: example_identity_def)
  have 3: "msg_public_key \<lparr>msg_nonce = Some [], msg_user = Some [117], msg_conn = Some [],
      msg_auth = Some [], msg_key_type = Some [],
      msg_public_key = Some \<lparr>pk_blob = [2], pk_fingerprint = []\<rparr>\<rparr>
      = Some \<lparr>pk_blob = [2], pk_fingerprint = []\<rparr>"
    by simp
  have 4: "client_sign_identity (example_env (example_result [2] sg) (Inr True)) example_identity
      example_blob (path example_identity) (Some curve_name) = Inr (example_result [2] sg)" for sg
    by (simp add: example_env_def)
  have 5: "decompress_pubkey (example_env (example_result [2] sg) (Inr True))
      (res_public_key (example_result [2] sg)) CurveDefault = Inr [2]" for sg
    by (simp add: example_env_def example_result_def)
  have 6: "serialize_verifying_key (example_env (example_result [2] sg) (Inr True)) [2]
      = Inr (pk_blob \<lparr>pk_blob = [2], pk_fingerprint = []\<rparr>)" for sg
    by (simp add: example_env_def)
  note w = sign_ssh_challenge_signature_shape [OF 1 example_blob_parsed 3 4 5 6, of _ "[]"]
  have s: "res_signature (example_result k sg) = sg" for k sg
    by (simp add: example_result_def)
  have p: "path example_identity = []"
    by (simp add: example_identity_def)
  show ?thesis
    using w [of "replicate 65 0"] w [of "replicate 64 0"] w [of "1 # replicate 64 0"]
    by (simp add: s p parse_signature_zero)
qed

text \<open>
  C10. On the empty challenge \<open>sign_ssh_challenge\<close> fails before anything is sent to the
  device: the parser returns the record with no field, reading its \<open>user\<close> raises
  \<open>KeyError\<close>, and the log of requests is returned as it was. (An identity whose protocol is
  not \<open>ssh\<close> fails one step earlier, at the first assertion, again with the log unchanged.)
\<close>

theorem sign_ssh_challenge_empty_blob:
  "parse_ssh_blob (parse_pubkey e) [] = Inr empty_blob \<and>
   sign_ssh_challenge e i [] reqs =
     (Inl (if proto i = ''ssh'' then KeyError ''user'' else AssertionError), reqs)"
  by (simp add: sign_ssh_challenge_def parse_ssh_blob_def empty_blob_def)

section \<open>Key-path derivation: results\<close>

lemma le2num_Cons: "le2num (b # bs) = uint b + 256 * le2num bs"
  by (simp add: le2num_def)


lemma le2num_sum: "le2num bs = (\<Sum>j < length bs. uint (bs ! j) * 256 ^ j)"
proof (induction bs)
  case Nil
  show ?case by (simp add: le2num_def)
next
  case (Cons b bs)
  have "(\<Sum>j < Suc (length bs). uint ((b # bs) ! j) * 256 ^ j)
      = uint b + (\<Sum>j < length bs. uint (bs ! j) * 256 ^ Suc j)"
    by (subst sum.lessThan_Suc_shift) simp
  also have "\<dots> = uint b + 256 * (\<Sum>j < length bs. uint (bs ! j) * 256 ^ j)"
    by (simp add: sum_distrib_left mult.left_commute)
  finally show ?case
    using Cons by (simp add: le2num_Cons del: sum.lessThan_Suc)
qed


lemma le2num_bounds: "0 \<le> le2num bs \<and> le2num bs < 256 ^ length bs"
proof (induction bs)
  case Nil
  show ?case by (simp add: le2num_def)
next
  case (Cons b bs)
  have "0 \<le> uint b" "uint b < 256"
    using uint_bounded [of b] by simp_all
  with Cons show ?case
    by (simp add: le2num_Cons)
qed


lemma unpack_word:
  assumes "k < 4" "16 \<le> length d"
  shows "le2num (take 4 (drop (4 * k) (take 16 d))) = (\<Sum>j < 4. uint (d ! (4 * k + j)) * 256 ^ j)"
    and "0 \<le> le2num (take 4 (drop (4 * k) (take 16 d)))"
    and "le2num (take 4 (drop (4 * k) (take 16 d))) < 2 ^ 32"
proof -
  let ?w = "take 4 (drop (4 * k) (take 16 d))"
  have l: "length ?w = 4"
    using assms by simp
  have p: "(256::int) ^ 4 = 2 ^ 32" by simp
  show "le2num ?w < 2 ^ 32" "0 \<le> le2num ?w"
    using le2num_bounds [of ?w] unfolding l p by simp_all
  show "le2num ?w = (\<Sum>j < 4. uint (d ! (4 * k + j)) * 256 ^ j)"
    unfolding le2num_sum [of ?w] l
    by (rule sum.cong [OF refl]) (use assms in simp)
qed


lemma hardened_or:
  assumes "0 \<le> v" "v < 2 ^ 32"
  shows "2 ^ 31 \<le> hardened OR v \<and> hardened OR v < 2 ^ 32 \<and> bit (hardened OR v) 31"
proof -
  have h: "hardened = 2 ^ 31" by (simp add: hardened_def)
  have "hardened \<le> hardened OR v"
    using assms(1) by (rule or_greater_eq)
  moreover have "hardened OR v < 2 ^ 32"
    by (rule OR_upper) (use assms in \<open>simp_all add: hardened_def\<close>)
  moreover have "bit (hardened OR v) 31"
    by (simp add: bit_or_iff h bit_exp_iff)
  ultimately show ?thesis by (simp add: h)
qed


lemma ucast_drop_bit_byte:
  "uint (ucast (drop_bit n v) :: byte) = (uint (v :: 32 word) div 2 ^ n) mod 256"
proof -
  have t: "take_bit 32 (uint v) = uint v"
    using uint_bounded [of v] by (simp add: take_bit_int_eq_self)
  have "uint (ucast (drop_bit n v) :: byte) = take_bit 8 (drop_bit n (uint v))"
    by (simp only: unsigned_ucast_eq unsigned_drop_bit_eq) (simp add: t)
  then show ?thesis
    by (simp add: take_bit_eq_mod drop_bit_eq_div)
qed


lemma horner4:
  fixes a :: int
  assumes "a = 256 * q1 + r0" "q1 = 256 * q2 + r1" "q2 = 256 * q3 + r2" "r3 = q3"
  shows "r0 + 256 * (r1 + 256 * (r2 + 256 * r3)) = a"
  using assms by simp


lemma split4:
  fixes x :: int
  assumes "0 \<le> x" "x < 4294967296"
  shows "x mod 256 + 256 * ((x div 256) mod 256 + 256 * ((x div 65536) mod 256
        + 256 * ((x div 16777216) mod 256))) = x"
proof -
  have f1: "x = 256 * (x div 256) + x mod 256"
    by simp
  have "x div 256 div 256 = x div (256 * 256)"
    by (rule zdiv_zmult2_eq [symmetric]) simp
  then have d2: "x div 256 div 256 = x div 65536" by simp
  have "x div 65536 div 256 = x div (65536 * 256)"
    by (rule zdiv_zmult2_eq [symmetric]) simp
  then have d3: "x div 65536 div 256 = x div 16777216" by simp
  have f2: "x div 256 = 256 * (x div 65536) + (x div 256) mod 256"
    using mult_div_mod_eq [of 256 "x div 256"] d2 by simp
  have f3: "x div 65536 = 256 * (x div 16777216) + (x div 65536) mod 256"
    using mult_div_mod_eq [of 256 "x div 65536"] d3 by simp
  have "0 \<le> x div 16777216" "x div 16777216 < 256"
    using assms by simp_all
  then have f4: "(x div 16777216) mod 256 = x div 16777216"
    by simp
  show ?thesis by (rule horner4 [OF f1 f2 f3 f4])
qed



lemma le2num_4:
  "le2num [b0, b1, b2, b3] = uint b0 + 256 * (uint b1 + 256 * (uint b2 + 256 * uint b3))"
  by (simp add: le2num_def)

lemma struct_pack_L_bytes:
  "struct_pack_L v =
     [ucast (drop_bit 0 v), ucast (drop_bit 8 v), ucast (drop_bit 16 v), ucast (drop_bit 24 v)]"
  by (simp add: struct_pack_L_def)

lemma struct_pack_L_le: "le2num (struct_pack_L v) = uint v"
proof -
  have r: "0 \<le> uint v" "uint v < 4294967296"
    using uint_bounded [of v] by simp_all
  have "le2num (struct_pack_L v) =
      (uint v div 2 ^ 0) mod 256 + 256 * ((uint v div 2 ^ 8) mod 256
        + 256 * ((uint v div 2 ^ 16) mod 256 + 256 * ((uint v div 2 ^ 24) mod 256)))"
    by (simp only: struct_pack_L_bytes le2num_4 ucast_drop_bit_byte)
  also have "\<dots> = uint v mod 256 + 256 * ((uint v div 256) mod 256
        + 256 * ((uint v div 65536) mod 256 + 256 * ((uint v div 16777216) mod 256)))"
    by simp
  also have "\<dots> = uint v"
    by (rule split4 [OF r])
  finally show ?thesis .
qed

lemma length_struct_pack_L: "length (struct_pack_L v) = 4"
  by (simp add: struct_pack_L_def)


lemma get_address_ok:
  assumes "list_all (\<lambda>c. (of_char c :: nat) < 128) (identity_to_string i)"
    and "16 \<le> length (h (struct_pack_L (index i) @ str_bytes (identity_to_string i)))"
  shows "get_address h i =
     Inr (map (\<lambda>v. hardened OR v)
        (13 # struct_unpack_LLLL
           (take 16 (h (struct_pack_L (index i) @ str_bytes (identity_to_string i))))))"
  using assms by (simp add: get_address_def encode_ascii_def recv_LLLL_def Let_def)


text \<open>
  C1. Let \<open>seed\<close> be the four bytes of \<open>index\<close>, lowest first, followed by the bytes of the
  formatted identity, and \<open>d\<close> its digest under the hash function \<open>h\<close>. When the formatted
  identity is ASCII and the digest has at least sixteen bytes, \<open>get_address\<close> returns five
  numbers: 13 and the four unsigned integers read from bytes 0 to 15 of \<open>d\<close>, four bytes
  each, lowest byte first, every one of the five OR-ed with \<open>0x80000000\<close>. Every element of a
  returned path lies in \<open>[2 ^ 31, 2 ^ 32)\<close>, so bit 31 is set, and the first is \<open>0x8000000D\<close>.
\<close>

theorem get_address_path:
  assumes "seed = struct_pack_L (index i) @ str_bytes (identity_to_string i)"
    and "d = h seed"
    and "list_all (\<lambda>c. (of_char c :: nat) < 128) (identity_to_string i)"
    and "16 \<le> length d"
  shows "get_address h i =
           Inr (map (\<lambda>v. 0x80000000 OR v)
                  (13 # map (\<lambda>k. \<Sum>j < 4. uint (d ! (4 * k + j)) * 256 ^ j) [0, 1, 2, 3])) \<and>
         take 4 seed = struct_pack_L (index i) \<and>
         (\<Sum>j < 4. uint (seed ! j) * 256 ^ j) = uint (index i) \<and>
         drop 4 seed = map of_char (identity_to_string i) \<and>
         (\<forall>p. get_address h i = Inr p \<longrightarrow>
            length p = 5 \<and> p ! 0 = 0x8000000D \<and>
            (\<forall>x \<in> set p. 2 ^ 31 \<le> x \<and> x < 2 ^ 32 \<and> bit x 31))"
proof -
  let ?w = "\<lambda>k. le2num (take 4 (drop (4 * k) (take 16 d)))"
  have ga: "get_address h i = Inr (map (\<lambda>v. hardened OR v) [13, ?w 0, ?w 1, ?w 2, ?w 3])"
    using get_address_ok [OF assms(3), of h] assms(1,2,4)
    by (simp add: struct_unpack_LLLL_def)
  have w: "?w k = (\<Sum>j < 4. uint (d ! (4 * k + j)) * 256 ^ j)" if "k < 4" for k
    using unpack_word(1) [OF that assms(4)] .
  have wb: "0 \<le> ?w k \<and> ?w k < 2 ^ 32" if "k < 4" for k
    using unpack_word(2,3) [OF that assms(4)] by simp
  have 1: "get_address h i =
           Inr (map (\<lambda>v. 0x80000000 OR v)
                  (13 # map (\<lambda>k. \<Sum>j < 4. uint (d ! (4 * k + j)) * 256 ^ j) [0, 1, 2, 3]))"
    unfolding ga using w [of 0] w [of 1] w [of 2] w [of 3]
    by (simp add: hardened_def)
  have 2: "take 4 seed = struct_pack_L (index i)"
    by (simp add: assms(1) length_struct_pack_L)
  have "(\<Sum>j < 4. uint (seed ! j) * 256 ^ j) = (\<Sum>j < 4. uint (struct_pack_L (index i) ! j) * 256 ^ j)"
    by (rule sum.cong [OF refl]) (simp add: assms(1) nth_append length_struct_pack_L)
  also have "\<dots> = le2num (struct_pack_L (index i))"
    unfolding le2num_sum length_struct_pack_L ..
  finally have 3: "(\<Sum>j < 4. uint (seed ! j) * 256 ^ j) = uint (index i)"
    by (simp add: struct_pack_L_le)
  have 4: "drop 4 seed = map of_char (identity_to_string i)"
    by (simp add: assms(1) length_struct_pack_L str_bytes_def)
  have h13: "2 ^ 31 \<le> hardened OR 13 \<and> hardened OR 13 < 2 ^ 32 \<and> bit (hardened OR 13) 31"
    by (rule hardened_or) simp_all
  have e13: "hardened OR 13 = 0x8000000D"
    by (simp add: hardened_def)
  have 5: "length p = 5 \<and> p ! 0 = 0x8000000D \<and>
           (\<forall>x \<in> set p. 2 ^ 31 \<le> x \<and> x < 2 ^ 32 \<and> bit x 31)"
    if "get_address h i = Inr p" for p
  proof -
    from that ga have p: "p = map (\<lambda>v. hardened OR v) [13, ?w 0, ?w 1, ?w 2, ?w 3]"
      by simp
    show ?thesis
      unfolding p
      using h13 e13 hardened_or [OF conjunct1 [OF wb [of 0]] conjunct2 [OF wb [of 0]]]
        hardened_or [OF conjunct1 [OF wb [of 1]] conjunct2 [OF wb [of 1]]]
        hardened_or [OF conjunct1 [OF wb [of 2]] conjunct2 [OF wb [of 2]]]
        hardened_or [OF conjunct1 [OF wb [of 3]] conjunct2 [OF wb [of 3]]]
      by simp
  qed
  from 1 2 3 4 5 show ?thesis by blast
qed

theorem get_address_path_witness:
  "list_all (\<lambda>c. (of_char c :: nat) < 128) (identity_to_string (example_identity\<lparr>index := 1\<rparr>)) \<and>
   get_address (\<lambda>b. take 16 (b @ replicate 16 0)) (example_identity\<lparr>index := 1\<rparr>) =
     Inr [2147483661, 2147483649, 3127407475, 2154311471, 2147483648]"
proof -
  let ?i = "example_identity\<lparr>index := 1\<rparr>"
  let ?h = "\<lambda>b :: bytes. take 16 (b @ replicate 16 0)"
  have a: "list_all (\<lambda>c. (of_char c :: nat) < 128) (identity_to_string ?i)"
    by code_simp
  have l: "16 \<le> length (?h (struct_pack_L (index ?i) @ str_bytes (identity_to_string ?i)))"
    by simp
  have v: "get_address ?h ?i = Inr [2147483661, 2147483649, 3127407475, 2154311471, 2147483648]"
    by code_simp
  from get_address_path [where i = ?i and h = ?h, OF refl refl a l] a v show ?thesis
    by simp
qed

section \<open>The generic signing flow\<close>

lemma sign_identity_display:
  assumes "get_identity label None = Inr i"
    and "get_address (hashfunc e) i = Inr n"
    and "client_get_public_node e n None = Inr node"
    and "pubkey_to_address e node = Inr address"
    and "client_get_address e n ''Bitcoin'' True = Inr ()"
  shows "sign_identity e label None sf ur reqs =
           (Inr 2, reqs @ [GetPublicNode n None, GetAddress n ''Bitcoin'' True])"
  using assms by (simp add: sign_identity_def Let_def)

lemma sign_identity_display_no_signing:
  "filter is_sign_request (snd (sign_identity e label None sf ur reqs)) =
   filter is_sign_request reqs"
  by (simp add: sign_identity_def Let_def split: sum.splits)

lemma sign_identity_validate:
  assumes "get_identity label None = Inr i"
    and "get_address (hashfunc e) i = Inr n"
    and "client_get_public_node e n None = Inr node"
    and "pubkey_to_address e node = Inr address"
    and "client_sign_identity e i (ur 64) (sf ''%d/%m/%y %H:%M:%S'') None = Inr result"
    and "res_address result = address"
    and "res_public_key result = node"
  shows "sign_identity e label (Some address) sf ur reqs =
           (validate_signature e result
              (message_digest e (ur 64) (sf ''%d/%m/%y %H:%M:%S'')) SECP256k1,
            reqs @ [GetPublicNode n None,
                    SignIdentity i (ur 64) (sf ''%d/%m/%y %H:%M:%S'') None])"
  using assms by (simp add: sign_identity_def Let_def)

lemma validate_signature_codes:
  assumes "decompress_pubkey e (res_public_key result) crv = Inr vk"
  shows "validate_signature e result digest crv =
           (case verify_digest e vk (parse_signature (res_signature result)) digest of
              Inr _ \<Rightarrow> Inr 0
            | Inl x \<Rightarrow> if x = BadSignatureError then Inr 1 else Inl x)"
  using assms by (simp add: validate_signature_def Let_def split: sum.splits)

text \<open>
  C7. Let the label parse, the path derive, and the device and the address helper answer. With
  no expected address, \<open>sign_identity\<close> asks the device to display the address and returns 2;
  whatever happens on that branch, no signing request is added to the log. With the expected
  address equal to the computed one, and the signing result carrying the same address and
  public key, the status is 0 when \<open>verify_digest\<close> returns and 1 when it raises
  \<open>BadSignatureError\<close>; any other exception is passed on.
\<close>

theorem sign_identity_status:
  assumes "get_identity label None = Inr i"
    and "get_address (hashfunc e) i = Inr n"
    and "client_get_public_node e n None = Inr node"
    and "pubkey_to_address e node = Inr address"
  shows "(client_get_address e n ''Bitcoin'' True = Inr () \<longrightarrow>
            sign_identity e label None sf ur reqs =
              (Inr 2, reqs @ [GetPublicNode n None, GetAddress n ''Bitcoin'' True])) \<and>
         filter is_sign_request (snd (sign_identity e label None sf ur reqs)) =
           filter is_sign_request reqs \<and>
         (\<forall>result vk verdict.
            client_sign_identity e i (ur 64) (sf ''%d/%m/%y %H:%M:%S'') None = Inr result \<and>
            res_address result = address \<and> res_public_key result = node \<and>
            decompress_pubkey e node SECP256k1 = Inr vk \<and>
            verify_digest e vk (parse_signature (res_signature result))
              (message_digest e (ur 64) (sf ''%d/%m/%y %H:%M:%S'')) = verdict \<longrightarrow>
            fst (sign_identity e label (Some address) sf ur reqs) =
              (case verdict of
                 Inr _ \<Rightarrow> Inr 0
               | Inl x \<Rightarrow> if x = BadSignatureError then Inr 1 else Inl x))"
proof (intro conjI allI impI)
  assume "client_get_address e n ''Bitcoin'' True = Inr ()"
  with assms show "sign_identity e label None sf ur reqs =
      (Inr 2, reqs @ [GetPublicNode n None, GetAddress n ''Bitcoin'' True])"
    by (rule sign_identity_display)
next
  show "filter is_sign_request (snd (sign_identity e label None sf ur reqs)) =
      filter is_sign_request reqs"
    by (rule sign_identity_display_no_signing)
next
  fix result vk verdict
  assume a: "client_sign_identity e i (ur 64) (sf ''%d/%m/%y %H:%M:%S'') None = Inr result \<and>
            res_address result = address \<and> res_public_key result = node \<and>
            decompress_pubkey e node SECP256k1 = Inr vk \<and>
            verify_digest e vk (parse_signature (res_signature result))
              (message_digest e (ur 64) (sf ''%d/%m/%y %H:%M:%S'')) = verdict"
  then have d: "decompress_pubkey e (res_public_key result) SECP256k1 = Inr vk"
    by simp
  from a have "sign_identity e label (Some address) sf ur reqs =
           (validate_signature e result
              (message_digest e (ur 64) (sf ''%d/%m/%y %H:%M:%S'')) SECP256k1,
            reqs @ [GetPublicNode n None,
                    SignIdentity i (ur 64) (sf ''%d/%m/%y %H:%M:%S'') None])"
    by (intro sign_identity_validate [OF assms]) simp_all
  with a show "fst (sign_identity e label (Some address) sf ur reqs) =
              (case verdict of
                 Inr _ \<Rightarrow> Inr 0
               | Inl x \<Rightarrow> if x = BadSignatureError then Inr 1 else Inl x)"
    by (simp add: validate_signature_codes [OF d])
qed

lemma example_label_parsed:
  "get_identity ''h'' None =
     Inr \<lparr>proto = [], user = [], host = ''h'', port = [], path = [], index = 0\<rparr>"
  by code_simp

lemma example_label_path:
  "get_address (\<lambda>b. replicate 32 1)
     \<lparr>proto = [], user = [], host = ''h'', port = [], path = [], index = 0\<rparr> =
     Inr [2147483661, 2164326657, 2164326657, 2164326657, 2164326657]"
  by code_simp

theorem sign_identity_status_witness:
  "sign_identity (example_env (example_result [2] (replicate 65 0)) (Inr True)) ''h'' None
      (\<lambda>f. ''now'') (\<lambda>n. replicate n 7) [] =
     (Inr 2,
      [GetPublicNode [2147483661, 2164326657, 2164326657, 2164326657, 2164326657] None,
       GetAddress [2147483661, 2164326657, 2164326657, 2164326657, 2164326657] ''Bitcoin'' True]) \<and>
   fst (sign_identity (example_env (example_result [2] (replicate 65 0)) (Inr True)) ''h''
      (Some ''addr'') (\<lambda>f. ''now'') (\<lambda>n. replicate n 7) []) = Inr 0 \<and>
   fst (sign_identity (example_env (example_result [2] (replicate 65 0)) (Inl BadSignatureError))
      ''h'' (Some ''addr'') (\<lambda>f. ''now'') (\<lambda>n. replicate n 7) []) = Inr 1"
proof -
  let ?r = "example_result [2] (replicate 65 0)"
  let ?i = "\<lparr>proto = [], user = [], host = ''h'', port = [], path = [], index = 0\<rparr>"
  let ?n = "[2147483661, 2164326657, 2164326657, 2164326657, 2164326657] :: int list"
  let ?sf = "\<lambda>f :: string. ''now''" and ?ur = "\<lambda>n. replicate n (7 :: byte)"
  have 2: "get_address (hashfunc (example_env ?r v)) ?i = Inr ?n" for v
    using example_label_path by (simp add: example_env_def)
  have 3: "client_get_public_node (example_env ?r v) ?n None = Inr [2]" for v
    by (simp add: example_env_def)
  have 4: "pubkey_to_address (example_env ?r v) [2] = Inr ''addr''" for v
    by (simp add: example_env_def)
  note w = sign_identity_status [OF example_label_parsed 2 3 4, of _ ?sf ?ur "[]"]
  have d: "client_get_address (example_env ?r v) ?n ''Bitcoin'' True = Inr ()" for v
    by (simp add: example_env_def)
  have s: "client_sign_identity (example_env ?r v) ?i (?ur 64) (?sf ''%d/%m/%y %H:%M:%S'') None
      = Inr ?r \<and> res_address ?r = ''addr'' \<and> res_public_key ?r = [2] \<and>
      decompress_pubkey (example_env ?r v) [2] SECP256k1 = Inr [2] \<and>
      verify_digest (example_env ?r v) [2] (parse_signature (res_signature ?r))
        (message_digest (example_env ?r v) (?ur 64) (?sf ''%d/%m/%y %H:%M:%S'')) = v" for v
    by (simp add: example_env_def example_result_def)
  have a: "sign_identity (example_env ?r (Inr True)) ''h'' None ?sf ?ur [] =
     (Inr 2, [GetPublicNode ?n None, GetAddress ?n ''Bitcoin'' True])"
    using conjunct1 [OF w [of "Inr True"]] d [of "Inr True"] by simp
  have b: "fst (sign_identity (example_env ?r v) ''h'' (Some ''addr'') ?sf ?ur []) =
      (case v of Inr _ \<Rightarrow> Inr 0 | Inl x \<Rightarrow> if x = BadSignatureError then Inr 1 else Inl x)" for v
    using conjunct2 [OF conjunct2 [OF w [of v]]] s [of v] by blast
  show ?thesis
    using a b [of "Inr True"] b [of "Inl BadSignatureError"] by simp
qed

end
